theory Spec2Isabelle
  imports Complex_Main "HOL-Library.Word"
begin

unbundle bit_operations_syntax

section \<open>Data model\<close>

text \<open>
  The embedding follows \<^verbatim>\<open>src/terrarium_featureset.ipp\<close>. Conventions:
  \<^item> \<^verbatim>\<open>uint8_t\<close> and \<^verbatim>\<open>uint32_t\<close> are words of that width; the integer promotions of C++
    are written out (\<open>uint\<close> reads a byte as the \<^verbatim>\<open>int\<close> it is promoted to).
  \<^item> A \<^verbatim>\<open>double\<close> is an ideal real number: rounding is not modelled. Every double the
    decoder produces is an integer of magnitude below \<open>2 ^ 16\<close>, so the decoding, the two
    differences and the numbers named in the theorems below (\<open>127.5\<close>, \<open>0\<close>, \<open>255\<close>) are
    exact in binary64; the trigonometric part is the formula over the reals.
    The one place where the sign of a floating-point zero changes a result, the call of
    \<^verbatim>\<open>atan2\<close>, carries the sign bit explicitly.
  \<^item> A read outside the pixel buffer is undefined behaviour in C++; the model returns
    \<open>None\<close> there.
\<close>

type_synonym u8 = "8 word"
type_synonym u32 = "32 word"

text \<open>\<^verbatim>\<open>mapnik::color\<close>: four bytes.\<close>

record color =
  red :: u8
  green :: u8
  blue :: u8
  alpha :: u8

text \<open>
  \<^verbatim>\<open>mapnik::image_rgba8\<close>: dimensions and a row-major buffer of packed pixels;
  \<^verbatim>\<open>get_row(r)\<close> points at element \<open>r * width\<close> of the buffer.
\<close>

record image_rgba8 =
  width :: nat
  height :: nat
  data :: "u32 list"

text \<open>\<^verbatim>\<open>mapnik::image_any\<close>: a variant; only the rgba8 alternative is of interest.\<close>

datatype image_any = Rgba8 image_rgba8 | Other_image

record box2d =
  minx :: real
  miny :: real
  maxx :: real
  maxy :: real

record raster =
  raster_extent :: box2d
  raster_query_extent :: box2d
  raster_data :: image_rgba8
  raster_filter_factor :: real

record feature =
  feature_id :: int
  feature_raster :: "raster option"

text \<open>What a \<^verbatim>\<open>try\<close> block can see thrown, in the order of the three handlers.\<close>

datatype exn = Image_reader_exception string | Std_exception string | Unknown_exception

text \<open>The members of \<^verbatim>\<open>terrarium_featureset\<close> that \<^verbatim>\<open>next\<close> reads or writes.\<close>

record terrarium_featureset =
  fs_feature_id :: int
  fs_extent :: box2d
  fs_bbox :: box2d
  fs_filter_factor :: real
  fs_done :: bool

section \<open>Height decoding\<close>

text \<open>
  \<^verbatim>\<open>height_val\<close>: the three channels are \<^verbatim>\<open>uint8_t\<close>, promoted to \<^verbatim>\<open>int\<close> in the
  arithmetic, so \<^verbatim>\<open>blue / 256\<close> is a division of integers (both operands are
  non-negative, where truncation and \<open>div\<close> agree). The \<^verbatim>\<open>int\<close> result is then converted
  to \<^verbatim>\<open>double\<close>.
\<close>

definition height_val :: "u32 \<Rightarrow> real" where
  "height_val pixel =
     (let red = (ucast (pixel AND 0xff) :: u8);
          green = (ucast (drop_bit 8 pixel AND 0xff) :: u8);
          blue = (ucast (drop_bit 16 pixel AND 0xff) :: u8)
      in real_of_int ((uint red * 256 + uint green + uint blue div 256) - 32768))"

text \<open>
  \<^verbatim>\<open>input.get_row(row)[col]\<close>: element \<open>row * width + col\<close> of the buffer, when that is
  inside the image.
\<close>

definition row_at :: "image_rgba8 \<Rightarrow> int \<Rightarrow> int \<Rightarrow> u32 option" where
  "row_at img row col =
     (let i = row * int (width img) + col
      in if 0 \<le> row \<and> row < int (height img) \<and> 0 \<le> i \<and> i < int (length (data img))
         then Some (data img ! nat i) else None)"

definition get_height :: "image_rgba8 \<Rightarrow> int \<Rightarrow> int \<Rightarrow> real option" where
  "get_height input row col = map_option height_val (row_at input (row + 2) (col + 2))"

section \<open>Slope, aspect and the two lights\<close>

text \<open>
  Lines 96 to 99 of the loop body: the centre height and the two central differences.
  Each difference of two doubles is exact here, and a zero difference is \<open>+0.0\<close>.
\<close>

definition stencil :: "image_rgba8 \<Rightarrow> int \<Rightarrow> int \<Rightarrow> (real \<times> real \<times> real) option" where
  "stencil input row col =
     (case get_height input row col of None \<Rightarrow> None | Some hgt \<Rightarrow>
     (case get_height input row (col + 1) of None \<Rightarrow> None | Some e \<Rightarrow>
     (case get_height input row (col - 1) of None \<Rightarrow> None | Some w \<Rightarrow>
     (case get_height input (row + 1) col of None \<Rightarrow> None | Some s \<Rightarrow>
     (case get_height input (row - 1) col of None \<Rightarrow> None | Some n \<Rightarrow>
        Some (hgt, e - w, s - n))))))"

text \<open>
  A double as \<^verbatim>\<open>atan2\<close> sees it: the sign bit and the value. \<open>dneg\<close> is unary minus
  applied to a double that is not \<open>-0.0\<close> (a difference never is): the sign bit of the
  result is set exactly when the operand is positive or \<open>+0.0\<close>.
\<close>

type_synonym sdouble = "bool \<times> real"

definition dneg :: "real \<Rightarrow> sdouble" where
  "dneg x = (0 \<le> x, - x)"

text \<open>
  \<^verbatim>\<open>atan2(y, x)\<close> of the C library (ISO C, annex F): the angle of the point \<open>(x, y)\<close>, with
  the sign of \<open>y\<close>; \<open>atan2(\<plusminus>0, -0) = \<plusminus>\<pi>\<close>, \<open>atan2(\<plusminus>0, +0) = \<plusminus>0\<close>,
  \<open>atan2(\<plusminus>0, x) = \<plusminus>\<pi>\<close> for \<open>x < 0\<close> and \<open>atan2(y, \<plusminus>0) = \<plusminus>\<pi>/2\<close> for \<open>y \<noteq> 0\<close>.
\<close>

definition atan2 :: "sdouble \<Rightarrow> sdouble \<Rightarrow> real" where
  "atan2 y x =
     (let ay = \<bar>snd y\<bar>; ax = \<bar>snd x\<bar>;
          m = (if ax = 0 then (if ay = 0 then (if fst x then pi else 0) else pi / 2)
               else if fst x then pi - arctan (ay / ax) else arctan (ay / ax))
      in if fst y then - m else m)"

text \<open>\<^verbatim>\<open>M_PI\<close> of \<^verbatim>\<open><cmath>\<close>: the double nearest to \<open>\<pi>\<close>, here \<open>\<pi>\<close> itself.\<close>

definition M_PI :: real where
  "M_PI = pi"

text \<open>Lines 100 and 101; \<^verbatim>\<open>pow(x, 2)\<close> is the square.\<close>

definition slope_of :: "real \<Rightarrow> real \<Rightarrow> real" where
  "slope_of dzdx dzdy = arctan (0.2 * sqrt (dzdx ^ 2 + dzdy ^ 2))"

definition aspect_of :: "real \<Rightarrow> real \<Rightarrow> real" where
  "aspect_of dzdx dzdy = atan2 (dneg dzdy) (dneg dzdx)"

text \<open>
  Lines 103 to 109 and 112 to 118: the luminance of each light, as a function of the
  slope and the aspect. The local variable that the code assigns four times is \<open>l\<close>.
\<close>

definition luminance1 :: "real \<Rightarrow> real \<Rightarrow> real" where
  "luminance1 slope aspect =
     (let azimuth1 = 315; elevation1 = 45; elev1 = elevation1 * M_PI / 180;
          l = cos (M_PI * 0.5 - aspect - (azimuth1 - 90) * M_PI / 180) * sin slope
                * sin (M_PI * 0.5 - elev1) + cos slope * cos (M_PI * 0.5 - elev1);
          l = (if l < 0 then 0 else l);
          l = sqrt (l * 0.8 + 0.2);
          l = l * 255
      in l)"

definition luminance2 :: "real \<Rightarrow> real \<Rightarrow> real" where
  "luminance2 slope aspect =
     (let azimuth2 = 225; elevation2 = 45; elev2 = elevation2 * M_PI / 180;
          l = cos (M_PI * 0.5 - aspect - (azimuth2 - 90) * M_PI / 180) * sin slope
                * sin (M_PI * 0.5 - elev2) + cos slope * cos (M_PI * 0.5 - elev2);
          l = (if l < 0 then 0 else l);
          l = sqrt (l * 0.8 + 0.2);
          l = l * 255
      in l)"

text \<open>
  The conversion of a double to \<^verbatim>\<open>uint8_t\<close> truncates towards zero. C++ leaves the
  conversion undefined when the truncated value is not in \<open>0..255\<close>; the model wraps
  modulo 256 there, and the theorems on the luminances and on alpha show that every
  conversion of the pipeline is in range.
\<close>

definition to_uint8 :: "real \<Rightarrow> u8" where
  "to_uint8 x = word_of_int (if x < 0 then \<lceil>x\<rceil> else \<lfloor>x\<rfloor>)"

text \<open>
  Lines 110 and 119: the two tints, from the luminances. The constructor of
  \<^verbatim>\<open>mapnik::color\<close> defaults alpha to 255.
\<close>

definition color1 :: "real \<Rightarrow> color" where
  "color1 l1 = \<lparr>red = to_uint8 l1, green = to_uint8 (l1 / 2), blue = 0, alpha = 255\<rparr>"

definition color2 :: "real \<Rightarrow> color" where
  "color2 l2 = \<lparr>red = 0, green = to_uint8 (l2 / 2), blue = to_uint8 l2, alpha = 255\<rparr>"

text \<open>
  \<^verbatim>\<open>blend\<close>: each sum is computed in \<^verbatim>\<open>int\<close> and narrowed to \<^verbatim>\<open>uint8_t\<close>.
\<close>

definition blend :: "color \<Rightarrow> color \<Rightarrow> color" where
  "blend c1 c2 =
     (let red = (word_of_int (uint (red c1) + uint (red c2)) :: u8);
          green = (word_of_int (uint (green c1) + uint (green c2)) :: u8);
          blue = (word_of_int (uint (blue c1) + uint (blue c2)) :: u8)
      in \<lparr>red = red, green = green, blue = blue, alpha = 255\<rparr>)"

text \<open>Lines 122 to 124: alpha as a double, before \<^verbatim>\<open>set_alpha\<close> narrows it.\<close>

definition alpha_of :: "real \<Rightarrow> real" where
  "alpha_of hgt =
     (let alpha = (hgt - 20) / 100 * 255;
          alpha = (if alpha > 255 then 255 else alpha);
          alpha = (if alpha < 0 then 0 else alpha)
      in alpha)"

definition bytes :: "color \<Rightarrow> u32" where
  "bytes c =
     (let val = push_bit 24 (ucast (alpha c) :: u32);
          val = val OR push_bit 16 (ucast (blue c));
          val = val OR push_bit 8 (ucast (green c));
          val = val OR ucast (red c)
      in val)"

text \<open>
  Lines 100 to 126: the pixel written to \<^verbatim>\<open>buf[col]\<close>, from the centre height and the
  two differences. \<^verbatim>\<open>set_alpha\<close> takes a \<^verbatim>\<open>uint8_t\<close>, so its argument is narrowed.
\<close>

definition shade :: "real \<Rightarrow> real \<Rightarrow> real \<Rightarrow> u32" where
  "shade hgt dzdx dzdy =
     (let slope = slope_of dzdx dzdy;
          aspect = aspect_of dzdx dzdy;
          c1 = color1 (luminance1 slope aspect);
          c2 = color2 (luminance2 slope aspect);
          color3 = blend c1 c2;
          alpha = alpha_of hgt;
          color3 = color3\<lparr>alpha := to_uint8 alpha\<rparr>
      in bytes color3)"

definition hillshade_pixel :: "image_rgba8 \<Rightarrow> int \<Rightarrow> int \<Rightarrow> u32 option" where
  "hillshade_pixel input row col =
     map_option (\<lambda>(hgt, dzdx, dzdy). shade hgt dzdx dzdy) (stencil input row col)"

text \<open>
  The two loops of \<^verbatim>\<open>process_hillshade\<close>: 512 rows of 512 pixels, each row copied into
  the 512 by 512 output by \<^verbatim>\<open>set_row\<close>. The result is \<open>None\<close> as soon as one read is
  outside the input.
\<close>

definition hillshade_row :: "image_rgba8 \<Rightarrow> int \<Rightarrow> u32 list option" where
  "hillshade_row input row =
     those (map (\<lambda>col. hillshade_pixel input row (int col)) [0..<512])"

definition process_hillshade :: "image_rgba8 \<Rightarrow> image_rgba8 option" where
  "process_hillshade input =
     map_option (\<lambda>rows. \<lparr>width = 512, height = 512, data = concat rows\<rparr>)
       (those (map (\<lambda>row. hillshade_row input (int row)) [0..<512]))"

section \<open>The feature set\<close>

text \<open>
  The constructor sets \<^verbatim>\<open>feature_id_\<close> to 1 (line 24).
  Modelled from the spec: the initial value of \<^verbatim>\<open>done\<close>. The member is declared in
  \<^verbatim>\<open>terrarium_featureset.hpp\<close>, which is not among the sources; the spec's producer
  starts in state Ready, that is with \<^verbatim>\<open>done\<close> false.
\<close>

definition terrarium_featureset_init :: "box2d \<Rightarrow> box2d \<Rightarrow> real \<Rightarrow> terrarium_featureset" where
  "terrarium_featureset_init extent bbox filter_factor =
     \<lparr>fs_feature_id = 1, fs_extent = extent, fs_bbox = bbox,
      fs_filter_factor = filter_factor, fs_done = False\<rparr>"

text \<open>\<^verbatim>\<open>input.get<mapnik::image_rgba8>()\<close> throws when the variant holds another image type.\<close>

definition get_rgba8 :: "image_any \<Rightarrow> exn + image_rgba8" where
  "get_rgba8 input =
     (case input of Rgba8 img \<Rightarrow> Inr img
      | Other_image \<Rightarrow> Inl (Std_exception ''in get<T>()''))"

text \<open>
  The \<^verbatim>\<open>try\<close> block of \<^verbatim>\<open>next\<close>. Its first argument is what
  \<^verbatim>\<open>image_reader_->read(0, 0, 516, 516)\<close> did: threw, or returned an image. The result
  is the exception that leaves the block or the raster it built; \<open>None\<close> when
  \<^verbatim>\<open>process_hillshade\<close> read outside the image.
\<close>

definition try_block :: "exn + image_any \<Rightarrow> terrarium_featureset \<Rightarrow> (exn + raster) option" where
  "try_block rd self =
     (case rd of
        Inl ex \<Rightarrow> Some (Inl ex)
      | Inr input \<Rightarrow>
         (case get_rgba8 input of
            Inl ex \<Rightarrow> Some (Inl ex)
          | Inr input_img \<Rightarrow>
             (case process_hillshade input_img of
                None \<Rightarrow> None
              | Some output \<Rightarrow>
                 Some (Inr \<lparr>raster_extent = fs_extent self, raster_query_extent = fs_extent self,
                            raster_data = output,
                            raster_filter_factor = fs_filter_factor self\<rparr>))))"

text \<open>
  \<^verbatim>\<open>terrarium_featureset::next\<close>. The returned pointer is \<open>None\<close> for the empty
  \<^verbatim>\<open>feature_ptr()\<close>. Each of the three handlers only writes a log line, so the feature
  leaves the handler as it was created.
\<close>

definition terrarium_featureset_next ::
  "exn + image_any \<Rightarrow> terrarium_featureset \<Rightarrow> (feature option \<times> terrarium_featureset) option" where
  "terrarium_featureset_next rd self =
     (if fs_done self then Some (None, self)
      else
        let feature = \<lparr>feature_id = fs_feature_id self, feature_raster = None\<rparr>;
            self = self\<lparr>fs_feature_id := fs_feature_id self + 1\<rparr>
        in (case try_block rd self of
              None \<Rightarrow> None
            | Some (Inr raster) \<Rightarrow>
                Some (Some (feature\<lparr>feature_raster := Some raster\<rparr>), self\<lparr>fs_done := True\<rparr>)
            | Some (Inl (Image_reader_exception what)) \<Rightarrow>
                Some (Some feature, self\<lparr>fs_done := True\<rparr>)
            | Some (Inl (Std_exception what)) \<Rightarrow>
                Some (Some feature, self\<lparr>fs_done := True\<rparr>)
            | Some (Inl Unknown_exception) \<Rightarrow>
                Some (Some feature, self\<lparr>fs_done := True\<rparr>)))"

section \<open>The specification's vocabulary\<close>

text \<open>
  The definitions of this section follow the words of the specification, not the code;
  the theorems below compare the two.
\<close>

text \<open>A HeightmapTile: 516 by 516 pixels.\<close>

definition tile516 :: "image_rgba8 \<Rightarrow> bool" where
  "tile516 img = (width img = 516 \<and> height img = 516 \<and> length (data img) = 516 * 516)"

text \<open>\<open>heightAt(r, c)\<close>: the decoded pixel at storage coordinate \<open>(r + 2, c + 2)\<close>.\<close>

definition heightAt :: "image_rgba8 \<Rightarrow> int \<Rightarrow> int \<Rightarrow> real" where
  "heightAt img r c = height_val (data img ! nat ((r + 2) * 516 + (c + 2)))"

definition spec_dzdx :: "image_rgba8 \<Rightarrow> int \<Rightarrow> int \<Rightarrow> real" where
  "spec_dzdx img row col = heightAt img row (col + 1) - heightAt img row (col - 1)"

definition spec_dzdy :: "image_rgba8 \<Rightarrow> int \<Rightarrow> int \<Rightarrow> real" where
  "spec_dzdy img row col = heightAt img (row + 1) col - heightAt img (row - 1) col"

definition spec_pixel :: "image_rgba8 \<Rightarrow> int \<Rightarrow> int \<Rightarrow> u32" where
  "spec_pixel img row col =
     shade (heightAt img row col) (spec_dzdx img row col) (spec_dzdy img row col)"

text \<open>The luminance of one light, section 4.5 of the specification.\<close>

definition spec_luminance :: "real \<Rightarrow> real \<Rightarrow> real \<Rightarrow> real \<Rightarrow> real" where
  "spec_luminance azimuth elevation slope aspect =
     (let elevRad = elevation * pi / 180;
          l = cos (pi / 2 - aspect - (azimuth - 90) * pi / 180) * sin slope
                * sin (pi / 2 - elevRad)
              + cos slope * cos (pi / 2 - elevRad);
          l = max l 0
      in sqrt (l * 0.8 + 0.2) * 255)"

definition clamp :: "real \<Rightarrow> real \<Rightarrow> real \<Rightarrow> real" where
  "clamp x lo hi = max lo (min hi x)"

text \<open>
  What the tile source may do when asked for the 516 by 516 window: fail, deliver an
  image that is not rgba8, or deliver a tile of the requested size.
\<close>

definition reader_ok :: "exn + image_any \<Rightarrow> bool" where
  "reader_ok rd =
     (case rd of
        Inl ex \<Rightarrow> True
      | Inr Other_image \<Rightarrow> True
      | Inr (Rgba8 img) \<Rightarrow> tile516 img)"

text \<open>A tile whose pixels are all the same, for concrete runs.\<close>

definition flat_tile :: "u32 \<Rightarrow> image_rgba8" where
  "flat_tile p = \<lparr>width = 516, height = 516, data = replicate (516 * 516) p\<rparr>"

text \<open>
  A tile with a step: height 0 in the three westmost storage columns, height 5 east of
  them.
\<close>

definition step_tile :: image_rgba8 where
  "step_tile =
     \<lparr>width = 516, height = 516,
      data = map (\<lambda>i. if 3 \<le> i mod 516 then 0x0580 else 0x0080) [0..<516 * 516]\<rparr>"

text \<open>An extent for concrete runs.\<close>

definition unit_box :: box2d where
  "unit_box = \<lparr>minx = 0, miny = 0, maxx = 1, maxy = 1\<rparr>"

section \<open>Decoding\<close>

lemma uint_u8_div: "uint (b :: u8) div 256 = 0"
  using uint_bounded [of b] by simp

text \<open>The blue channel never reaches the result: every decoded height is an integer.\<close>

lemma height_val_channels:
  "height_val pixel =
     real_of_int (uint (ucast (pixel AND 0xff) :: u8) * 256
       + uint (ucast (drop_bit 8 pixel AND 0xff) :: u8) - 32768)"
  by (simp add: height_val_def Let_def uint_u8_div)

text \<open>
  C1. The specification decodes a pixel to \<open>red * 256 + green + blue / 256 - 32768\<close>,
  the blue channel adding a fraction. In the code \<^verbatim>\<open>blue / 256\<close> divides two integers
  and is 0: the pixel with all three channels 255 decodes to 32767, which is the height
  of the pixel with blue 0, and not to \<open>255 * 256 + 255 + 255 / 256 - 32768\<close>.
\<close>

theorem height_val_white:
  "height_val 0xFFFFFF = 32767 \<and>
   height_val 0xFFFFFF = height_val 0x00FFFF \<and>
   height_val 0xFFFFFF \<noteq> 255 * 256 + 255 + 255 / 256 - 32768"
  by (simp add: height_val_def)

section \<open>Blending\<close>

lemma bytes_red: "(ucast (bytes c) :: u8) = red c"
  by (rule bit_word_eqI) (auto simp: bytes_def Let_def bit_simps dest: bit_imp_le_length)

lemma bytes_green: "(ucast (drop_bit 8 (bytes c)) :: u8) = green c"
  by (rule bit_word_eqI) (auto simp: bytes_def Let_def bit_simps dest: bit_imp_le_length)

lemma bytes_blue: "(ucast (drop_bit 16 (bytes c)) :: u8) = blue c"
  by (rule bit_word_eqI) (auto simp: bytes_def Let_def bit_simps dest: bit_imp_le_length)

lemma blend_channels:
  "unat (red (blend c1 c2)) = (unat (red c1) + unat (red c2)) mod 256 \<and>
   unat (green (blend c1 c2)) = (unat (green c1) + unat (green c2)) mod 256 \<and>
   unat (blue (blend c1 c2)) = (unat (blue c1) + unat (blue c2)) mod 256"
  by (simp add: blend_def Let_def unat_word_ariths)

text \<open>
  C5. Each colour channel of the blend of two colours is the sum of the two channels
  modulo 256; so the red, green and blue bytes of every output pixel are the sums,
  modulo 256, of the channels of the two tints of that pixel.
\<close>

theorem blend_wraps:
  fixes hgt dzdx dzdy :: real
  defines "t1 \<equiv> color1 (luminance1 (slope_of dzdx dzdy) (aspect_of dzdx dzdy))"
    and "t2 \<equiv> color2 (luminance2 (slope_of dzdx dzdy) (aspect_of dzdx dzdy))"
  shows "unat (red (blend c1 c2)) = (unat (red c1) + unat (red c2)) mod 256 \<and>
   unat (green (blend c1 c2)) = (unat (green c1) + unat (green c2)) mod 256 \<and>
   unat (blue (blend c1 c2)) = (unat (blue c1) + unat (blue c2)) mod 256 \<and>
   unat (ucast (shade hgt dzdx dzdy) :: u8) = (unat (red t1) + unat (red t2)) mod 256 \<and>
   unat (ucast (drop_bit 8 (shade hgt dzdx dzdy)) :: u8) = (unat (green t1) + unat (green t2)) mod 256 \<and>
   unat (ucast (drop_bit 16 (shade hgt dzdx dzdy)) :: u8) = (unat (blue t1) + unat (blue t2)) mod 256"
proof -
  have "shade hgt dzdx dzdy = bytes ((blend t1 t2)\<lparr>alpha := to_uint8 (alpha_of hgt)\<rparr>)"
    by (simp add: shade_def Let_def t1_def t2_def)
  then show ?thesis
    using blend_channels [of c1 c2] blend_channels [of t1 t2]
    by (simp add: bytes_red bytes_green bytes_blue)
qed

section \<open>The two lights\<close>

lemma luminance1_spec: "luminance1 slope aspect = spec_luminance 315 45 slope aspect"
  by (simp add: luminance1_def spec_luminance_def M_PI_def Let_def max_def)

lemma luminance2_spec: "luminance2 slope aspect = spec_luminance 225 45 slope aspect"
  by (simp add: luminance2_def spec_luminance_def M_PI_def Let_def max_def)

lemma cauchy2: "(p * q + r * t)\<^sup>2 \<le> (p\<^sup>2 + r\<^sup>2) * (q\<^sup>2 + t\<^sup>2)" for p q r t :: real
proof -
  have "(p\<^sup>2 + r\<^sup>2) * (q\<^sup>2 + t\<^sup>2) - (p * q + r * t)\<^sup>2 = (p * t - r * q)\<^sup>2"
    by (simp add: power2_eq_square algebra_simps)
  moreover have "0 \<le> (p * t - r * q)\<^sup>2" by simp
  ultimately show ?thesis by linarith
qed

text \<open>
  Before the clamp and the gamma lift, a luminance is the inner product of two unit
  vectors (the surface normal and the direction of the light), hence at most 1.
\<close>

lemma lambert_le_1: "cos a * sin s * sin z + cos s * cos z \<le> 1" for a s z :: real
proof -
  define x where "x = sin s * (cos a * sin z) + cos s * cos z"
  have "x\<^sup>2 \<le> ((sin s)\<^sup>2 + (cos s)\<^sup>2) * ((cos a * sin z)\<^sup>2 + (cos z)\<^sup>2)"
    unfolding x_def by (rule cauchy2)
  also have "\<dots> = (cos a)\<^sup>2 * (sin z)\<^sup>2 + (cos z)\<^sup>2"
    by (simp add: power_mult_distrib)
  also have "\<dots> \<le> 1"
  proof -
    have "(cos a)\<^sup>2 \<le> 1" by (simp add: abs_square_le_1)
    then have "(cos a)\<^sup>2 * (sin z)\<^sup>2 \<le> 1 * (sin z)\<^sup>2"
      by (rule mult_right_mono) simp
    moreover have "(sin z)\<^sup>2 + (cos z)\<^sup>2 = 1" by simp
    ultimately show ?thesis by linarith
  qed
  finally have "x\<^sup>2 \<le> 1" .
  then have "\<bar>x\<bar> \<le> 1" by (simp add: abs_square_le_1)
  moreover have "cos a * sin s * sin z + cos s * cos z = x"
    by (simp add: x_def mult_ac)
  ultimately show ?thesis by linarith
qed

lemma spec_luminance_bounds:
  "sqrt 0.2 * 255 \<le> spec_luminance az el slope aspect \<and>
   spec_luminance az el slope aspect \<le> 255"
proof -
  define l where
    "l = max (cos (pi / 2 - aspect - (az - 90) * pi / 180) * sin slope
                * sin (pi / 2 - el * pi / 180)
              + cos slope * cos (pi / 2 - el * pi / 180)) 0"
  have l: "0 \<le> l" "l \<le> 1"
    unfolding l_def
    using lambert_le_1 [of "pi / 2 - aspect - (az - 90) * pi / 180" slope "pi / 2 - el * pi / 180"]
    by auto
  have eq: "spec_luminance az el slope aspect = sqrt (l * 0.8 + 0.2) * 255"
    by (simp add: spec_luminance_def l_def Let_def)
  have "sqrt 0.2 \<le> sqrt (l * 0.8 + 0.2)"
    using l by (intro real_sqrt_le_mono) simp
  moreover have "sqrt (l * 0.8 + 0.2) \<le> sqrt 1"
    using l by (intro real_sqrt_le_mono) simp
  ultimately show ?thesis unfolding eq by simp
qed

lemma sqrt_fifth_lower: "114 \<le> sqrt 0.2 * (255::real)"
proof -
  have "(114 / 255 :: real)\<^sup>2 \<le> 0.2" by (simp add: power2_eq_square)
  then have "114 / 255 \<le> sqrt (0.2::real)" by (rule real_le_rsqrt)
  then show ?thesis by simp
qed

lemma to_uint8_in_range:
  assumes "0 \<le> x" "x < 256"
  shows "uint (to_uint8 x) = \<lfloor>x\<rfloor>"
proof -
  have "0 \<le> \<lfloor>x\<rfloor>" "\<lfloor>x\<rfloor> < 256"
    using assms by (simp_all add: floor_less_iff)
  then show ?thesis
    using assms by (simp add: to_uint8_def uint_word_of_int)
qed

lemma to_uint8_floor: "0 \<le> x \<Longrightarrow> \<lfloor>x\<rfloor> = k \<Longrightarrow> to_uint8 x = word_of_int k"
  by (simp add: to_uint8_def)

lemma luminance_bounds:
  "114 \<le> luminance1 slope aspect \<and> luminance1 slope aspect \<le> 255 \<and>
   114 \<le> luminance2 slope aspect \<and> luminance2 slope aspect \<le> 255"
  using spec_luminance_bounds [of 315 45 slope aspect]
    spec_luminance_bounds [of 225 45 slope aspect] sqrt_fifth_lower
  unfolding luminance1_spec luminance2_spec by linarith

lemma tint_channels:
  assumes "0 \<le> l" "l \<le> 255"
  shows "uint (red (color1 l)) = \<lfloor>l\<rfloor> \<and> uint (green (color1 l)) = \<lfloor>l / 2\<rfloor> \<and>
         blue (color1 l) = 0 \<and>
         red (color2 l) = 0 \<and> uint (green (color2 l)) = \<lfloor>l / 2\<rfloor> \<and>
         uint (blue (color2 l)) = \<lfloor>l\<rfloor>"
proof -
  have "uint (to_uint8 l) = \<lfloor>l\<rfloor>"
    using assms by (intro to_uint8_in_range) simp_all
  moreover have "uint (to_uint8 (l / 2)) = \<lfloor>l / 2\<rfloor>"
    using assms by (intro to_uint8_in_range) simp_all
  ultimately show ?thesis
    by (simp add: color1_def color2_def)
qed

lemma blend_sum:
  "red (blend c1 c2) = red c1 + red c2 \<and> green (blend c1 c2) = green c1 + green c2 \<and>
   blue (blend c1 c2) = blue c1 + blue c2"
  by (simp add: blend_def Let_def)

lemma uint_add_small:
  fixes a b :: u8
  assumes "uint a + uint b < 256"
  shows "uint (a + b) = uint a + uint b"
proof -
  have "uint (a + b) = (uint a + uint b) mod 256"
    by (simp add: uint_word_ariths)
  moreover have "0 \<le> uint a + uint b"
    by simp
  ultimately show ?thesis
    using assms by simp
qed

text \<open>
  C3. Either luminance is the formula of the specification at the light's azimuth and
  elevation (315 and 45 for light A, 225 and 45 for light B), clamped below at 0 and
  lifted to \<open>sqrt (l * 0.8 + 0.2) * 255\<close>. Light A's tint holds the luminance in red and
  half of it in green, with blue 0; light B's tint holds the luminance in blue and half
  of it in green, with red 0. A channel is a byte: it holds the integer part of the
  value. So for every pixel, whatever its height and its two differences: the pixel is
  the blend of the two tints of the specification's luminances at the pixel's slope and
  aspect; its red byte is the integer part of light A's luminance, its blue byte that of
  light B's, and its green byte the sum of the integer parts of the two halves.
\<close>

theorem two_light_tints:
  fixes hgt dzdx dzdy slope aspect :: real
  defines "la \<equiv> spec_luminance 315 45 (slope_of dzdx dzdy) (aspect_of dzdx dzdy)"
    and "lb \<equiv> spec_luminance 225 45 (slope_of dzdx dzdy) (aspect_of dzdx dzdy)"
  shows "luminance1 slope aspect = spec_luminance 315 45 slope aspect \<and>
   luminance2 slope aspect = spec_luminance 225 45 slope aspect \<and>
   uint (red (color1 (luminance1 slope aspect))) = \<lfloor>luminance1 slope aspect\<rfloor> \<and>
   uint (green (color1 (luminance1 slope aspect))) = \<lfloor>luminance1 slope aspect / 2\<rfloor> \<and>
   blue (color1 (luminance1 slope aspect)) = 0 \<and>
   red (color2 (luminance2 slope aspect)) = 0 \<and>
   uint (green (color2 (luminance2 slope aspect))) = \<lfloor>luminance2 slope aspect / 2\<rfloor> \<and>
   uint (blue (color2 (luminance2 slope aspect))) = \<lfloor>luminance2 slope aspect\<rfloor> \<and>
   shade hgt dzdx dzdy =
     bytes ((blend (color1 la) (color2 lb))\<lparr>alpha := to_uint8 (alpha_of hgt)\<rparr>) \<and>
   uint (ucast (shade hgt dzdx dzdy) :: u8) = \<lfloor>la\<rfloor> \<and>
   uint (ucast (drop_bit 8 (shade hgt dzdx dzdy)) :: u8) = \<lfloor>la / 2\<rfloor> + \<lfloor>lb / 2\<rfloor> \<and>
   uint (ucast (drop_bit 16 (shade hgt dzdx dzdy)) :: u8) = \<lfloor>lb\<rfloor>"
proof -
  have b: "0 \<le> luminance1 slope aspect" "luminance1 slope aspect \<le> 255"
    "0 \<le> luminance2 slope aspect" "luminance2 slope aspect \<le> 255"
    using luminance_bounds [of slope aspect] by simp_all
  have tints: "luminance1 slope aspect = spec_luminance 315 45 slope aspect \<and>
   luminance2 slope aspect = spec_luminance 225 45 slope aspect \<and>
   uint (red (color1 (luminance1 slope aspect))) = \<lfloor>luminance1 slope aspect\<rfloor> \<and>
   uint (green (color1 (luminance1 slope aspect))) = \<lfloor>luminance1 slope aspect / 2\<rfloor> \<and>
   blue (color1 (luminance1 slope aspect)) = 0 \<and>
   red (color2 (luminance2 slope aspect)) = 0 \<and>
   uint (green (color2 (luminance2 slope aspect))) = \<lfloor>luminance2 slope aspect / 2\<rfloor> \<and>
   uint (blue (color2 (luminance2 slope aspect))) = \<lfloor>luminance2 slope aspect\<rfloor>"
    using tint_channels [OF b(1,2)] tint_channels [OF b(3,4)]
    by (simp add: luminance1_spec luminance2_spec)
  have l: "0 \<le> la" "la \<le> 255" "0 \<le> lb" "lb \<le> 255"
    using spec_luminance_bounds [of 315 45 "slope_of dzdx dzdy" "aspect_of dzdx dzdy"]
      spec_luminance_bounds [of 225 45 "slope_of dzdx dzdy" "aspect_of dzdx dzdy"]
      sqrt_fifth_lower
    unfolding la_def lb_def by linarith+
  note ta = tint_channels [OF l(1,2)] and tb = tint_channels [OF l(3,4)]
  have sh: "shade hgt dzdx dzdy =
     bytes ((blend (color1 la) (color2 lb))\<lparr>alpha := to_uint8 (alpha_of hgt)\<rparr>)"
    by (simp add: shade_def Let_def la_def lb_def luminance1_spec luminance2_spec)
  have r: "(ucast (shade hgt dzdx dzdy) :: u8) = red (color1 la)"
    using ta tb by (simp add: sh bytes_red blend_sum)
  have bl: "(ucast (drop_bit 16 (shade hgt dzdx dzdy)) :: u8) = blue (color2 lb)"
    using ta tb by (simp add: sh bytes_blue blend_sum)
  have g: "(ucast (drop_bit 8 (shade hgt dzdx dzdy)) :: u8) = green (color1 la) + green (color2 lb)"
    by (simp add: sh bytes_green blend_sum)
  have "\<lfloor>la / 2\<rfloor> \<le> 127" "\<lfloor>lb / 2\<rfloor> \<le> 127"
    using l by (simp_all add: floor_le_iff)
  moreover have "uint (green (color1 la)) = \<lfloor>la / 2\<rfloor>" "uint (green (color2 lb)) = \<lfloor>lb / 2\<rfloor>"
    using ta tb by blast+
  ultimately have "uint (green (color1 la)) + uint (green (color2 lb)) < 256"
    by linarith
  then have "uint (green (color1 la) + green (color2 lb)) = \<lfloor>la / 2\<rfloor> + \<lfloor>lb / 2\<rfloor>"
    using uint_add_small [of "green (color1 la)" "green (color2 lb)"] ta tb by simp
  then have g': "uint (ucast (drop_bit 8 (shade hgt dzdx dzdy)) :: u8) = \<lfloor>la / 2\<rfloor> + \<lfloor>lb / 2\<rfloor>"
    by (simp only: g)
  have r': "uint (ucast (shade hgt dzdx dzdy) :: u8) = \<lfloor>la\<rfloor>"
    using ta by (simp only: r)
  have b': "uint (ucast (drop_bit 16 (shade hgt dzdx dzdy)) :: u8) = \<lfloor>lb\<rfloor>"
    using tb by (simp only: bl)
  from tints sh r' g' b' show ?thesis by blast
qed

text \<open>
  C9. For every slope and aspect, each light's luminance after the gamma lift lies
  between \<open>sqrt 0.2 * 255\<close> and 255, so the four conversions to a byte (luminance and
  half the luminance, for each light) are in range: the byte read back is the integer
  part of the value, nothing is lost modulo 256.
\<close>

theorem luminance_conversions_in_range:
  "sqrt 0.2 * 255 \<le> luminance1 slope aspect \<and> luminance1 slope aspect \<le> 255 \<and>
   sqrt 0.2 * 255 \<le> luminance2 slope aspect \<and> luminance2 slope aspect \<le> 255 \<and>
   uint (to_uint8 (luminance1 slope aspect)) = \<lfloor>luminance1 slope aspect\<rfloor> \<and>
   uint (to_uint8 (luminance1 slope aspect / 2)) = \<lfloor>luminance1 slope aspect / 2\<rfloor> \<and>
   uint (to_uint8 (luminance2 slope aspect)) = \<lfloor>luminance2 slope aspect\<rfloor> \<and>
   uint (to_uint8 (luminance2 slope aspect / 2)) = \<lfloor>luminance2 slope aspect / 2\<rfloor>"
proof -
  have b: "114 \<le> luminance1 slope aspect" "luminance1 slope aspect \<le> 255"
    "114 \<le> luminance2 slope aspect" "luminance2 slope aspect \<le> 255"
    using luminance_bounds [of slope aspect] by simp_all
  have "uint (to_uint8 (luminance1 slope aspect)) = \<lfloor>luminance1 slope aspect\<rfloor>"
    using b by (intro to_uint8_in_range) simp_all
  moreover have "uint (to_uint8 (luminance1 slope aspect / 2)) = \<lfloor>luminance1 slope aspect / 2\<rfloor>"
    using b by (intro to_uint8_in_range) simp_all
  moreover have "uint (to_uint8 (luminance2 slope aspect)) = \<lfloor>luminance2 slope aspect\<rfloor>"
    using b by (intro to_uint8_in_range) simp_all
  moreover have "uint (to_uint8 (luminance2 slope aspect / 2)) = \<lfloor>luminance2 slope aspect / 2\<rfloor>"
    using b by (intro to_uint8_in_range) simp_all
  moreover have "sqrt 0.2 * 255 \<le> luminance1 slope aspect"
    using spec_luminance_bounds [of 315 45 slope aspect] by (simp add: luminance1_spec)
  moreover have "sqrt 0.2 * 255 \<le> luminance2 slope aspect"
    using spec_luminance_bounds [of 225 45 slope aspect] by (simp add: luminance2_spec)
  ultimately show ?thesis using b by simp
qed

text \<open>In the pipeline itself the sums stay below 256.\<close>

lemma tints_do_not_overflow:
  fixes slope aspect :: real
  defines "t1 \<equiv> color1 (luminance1 slope aspect)"
    and "t2 \<equiv> color2 (luminance2 slope aspect)"
  shows "unat (red t1) + unat (red t2) < 256 \<and> unat (green t1) + unat (green t2) < 256 \<and>
         unat (blue t1) + unat (blue t2) < 256"
proof -
  have b: "0 \<le> luminance1 slope aspect" "luminance1 slope aspect \<le> 255"
    "0 \<le> luminance2 slope aspect" "luminance2 slope aspect \<le> 255"
    using luminance_bounds [of slope aspect] by simp_all
  have "uint (green t1) = \<lfloor>luminance1 slope aspect / 2\<rfloor>"
    and "uint (green t2) = \<lfloor>luminance2 slope aspect / 2\<rfloor>"
    and z: "red t2 = 0" "blue t1 = 0"
    unfolding t1_def t2_def using tint_channels [OF b(1,2)] tint_channels [OF b(3,4)] by simp_all
  moreover have "\<lfloor>luminance1 slope aspect / 2\<rfloor> \<le> 127" "\<lfloor>luminance2 slope aspect / 2\<rfloor> \<le> 127"
    using b by (simp_all add: floor_le_iff)
  ultimately have "uint (green t1) \<le> 127" "uint (green t2) \<le> 127"
    by simp_all
  then have g: "unat (green t1) \<le> 127" "unat (green t2) \<le> 127"
    by (simp_all add: unat_eq_nat_uint del: nat_uint_eq)
  have "unat (red t1) < 256" "unat (blue t2) < 256"
    using unsigned_less [of "red t1"] unsigned_less [of "blue t2"] by simp_all
  then show ?thesis
    using g z by simp
qed

section \<open>Reading the tile\<close>

lemma get_height_tile:
  assumes "tile516 img" "- 2 \<le> row" "row \<le> 513" "- 2 \<le> col" "col \<le> 513"
  shows "get_height img row col = Some (heightAt img row col)"
proof -
  have "0 \<le> (row + 2) * 516 + (col + 2)" "(row + 2) * 516 + (col + 2) < 516 * 516"
    using assms by auto
  then show ?thesis
    using assms by (simp add: get_height_def row_at_def tile516_def heightAt_def Let_def)
qed

lemma stencil_tile:
  assumes "tile516 img" "0 \<le> row" "row < 512" "0 \<le> col" "col < 512"
  shows "stencil img row col =
           Some (heightAt img row col, spec_dzdx img row col, spec_dzdy img row col)"
  using assms by (simp add: stencil_def get_height_tile spec_dzdx_def spec_dzdy_def)

lemma hillshade_pixel_tile:
  assumes "tile516 img" "0 \<le> row" "row < 512" "0 \<le> col" "col < 512"
  shows "hillshade_pixel img row col = Some (spec_pixel img row col)"
  using assms by (simp add: hillshade_pixel_def stencil_tile spec_pixel_def)

lemma those_map_Some:
  "(\<And>x. x \<in> set xs \<Longrightarrow> f x = Some (g x)) \<Longrightarrow> those (map f xs) = Some (map g xs)"
  by (induction xs) simp_all

lemma hillshade_row_tile:
  assumes "tile516 img" "0 \<le> row" "row < 512"
  shows "hillshade_row img row = Some (map (\<lambda>col. spec_pixel img row (int col)) [0..<512])"
  unfolding hillshade_row_def
  by (rule those_map_Some) (use assms in \<open>simp add: hillshade_pixel_tile\<close>)

text \<open>On a tile of the right size every read is inside the image, and the output is
  the 512 by 512 image of the pixels \<open>spec_pixel\<close>, row by row.\<close>

lemma process_hillshade_tile:
  assumes "tile516 img"
  shows "process_hillshade img =
           Some \<lparr>width = 512, height = 512,
                 data = concat (map (\<lambda>row. map (\<lambda>col. spec_pixel img (int row) (int col))
                                              [0..<512]) [0..<512])\<rparr>"
proof -
  have "those (map (\<lambda>row. hillshade_row img (int row)) [0..<512]) =
          Some (map (\<lambda>row. map (\<lambda>col. spec_pixel img (int row) (int col)) [0..<512]) [0..<512])"
    by (rule those_map_Some) (use assms in \<open>simp add: hillshade_row_tile\<close>)
  then show ?thesis
    by (simp add: process_hillshade_def)
qed

lemma nth_concat_rows:
  "(\<And>xs. xs \<in> set xss \<Longrightarrow> length xs = n) \<Longrightarrow> i < length xss \<Longrightarrow> j < n \<Longrightarrow>
     concat xss ! (i * n + j) = xss ! i ! j"
proof (induction xss arbitrary: i)
  case Nil
  then show ?case by simp
next
  case (Cons xs xss)
  show ?case
  proof (cases i)
    case 0
    then show ?thesis using Cons.prems by (simp add: nth_append)
  next
    case (Suc k)
    then show ?thesis using Cons.prems Cons.IH [of k] by (simp add: nth_append)
  qed
qed

lemma output_pixel:
  assumes "row < 512" "col < 512"
  shows "concat (map (\<lambda>row. map (\<lambda>col. f row col) [0..<512]) [0..<(512::nat)]) ! (row * 512 + col)
           = f row col"
proof -
  let ?xss = "map (\<lambda>row. map (\<lambda>col. f row col) [0..<512]) [0..<(512::nat)]"
  have "concat ?xss ! (row * 512 + col) = ?xss ! row ! col"
    by (rule nth_concat_rows) (use assms in auto)
  then show ?thesis using assms by simp
qed

lemma process_hillshade_pixel:
  assumes "tile516 img" "row < 512" "col < 512"
  shows "\<exists>out. process_hillshade img = Some out \<and> width out = 512 \<and> height out = 512 \<and>
           data out ! (row * 512 + col) = spec_pixel img (int row) (int col)"
  using assms by (simp add: process_hillshade_tile output_pixel)

section \<open>Slope and aspect\<close>

lemma polar_arctan:
  assumes "0 < ax" "0 \<le> ay"
  shows "sqrt (ax\<^sup>2 + ay\<^sup>2) * cos (arctan (ay / ax)) = ax \<and>
         sqrt (ax\<^sup>2 + ay\<^sup>2) * sin (arctan (ay / ax)) = ay"
proof -
  have pos: "0 < 1 + (ay / ax)\<^sup>2" by (simp add: add_pos_nonneg)
  have "ax\<^sup>2 + ay\<^sup>2 = ax\<^sup>2 * (1 + (ay / ax)\<^sup>2)"
    using assms by (simp add: field_simps power2_eq_square)
  then have r: "sqrt (ax\<^sup>2 + ay\<^sup>2) = ax * sqrt (1 + (ay / ax)\<^sup>2)"
    using assms by (simp add: real_sqrt_mult)
  have nz: "sqrt (1 + (ay / ax)\<^sup>2) \<noteq> 0"
    using pos by simp
  have "sqrt (ax\<^sup>2 + ay\<^sup>2) * cos (arctan (ay / ax)) = ax"
    unfolding r cos_arctan using nz by simp
  moreover have "sqrt (ax\<^sup>2 + ay\<^sup>2) * sin (arctan (ay / ax)) = ay"
    unfolding r sin_arctan using nz assms by simp
  ultimately show ?thesis ..
qed

text \<open>The aspect is the direction of the vector \<open>(- dzdx, - dzdy)\<close>.\<close>

lemma aspect_polar:
  fixes dzdx dzdy :: real
  defines "r \<equiv> sqrt (dzdx\<^sup>2 + dzdy\<^sup>2)"
  shows "r * cos (aspect_of dzdx dzdy) = - dzdx \<and> r * sin (aspect_of dzdx dzdy) = - dzdy"
proof -
  consider (zz) "dzdx = 0" "dzdy = 0" | (zy) "dzdx = 0" "dzdy \<noteq> 0" | (nz) "dzdx \<noteq> 0"
    by blast
  then show ?thesis
  proof cases
    case zz
    then show ?thesis by (simp add: r_def)
  next
    case zy
    then show ?thesis by (simp add: r_def aspect_of_def atan2_def dneg_def Let_def)
  next
    case nz
    have "sqrt (\<bar>dzdx\<bar>\<^sup>2 + \<bar>dzdy\<bar>\<^sup>2) * cos (arctan (\<bar>dzdy\<bar> / \<bar>dzdx\<bar>)) = \<bar>dzdx\<bar> \<and>
          sqrt (\<bar>dzdx\<bar>\<^sup>2 + \<bar>dzdy\<bar>\<^sup>2) * sin (arctan (\<bar>dzdy\<bar> / \<bar>dzdx\<bar>)) = \<bar>dzdy\<bar>"
      using nz by (intro polar_arctan) simp_all
    then have "r * cos (arctan (\<bar>dzdy\<bar> / \<bar>dzdx\<bar>)) = \<bar>dzdx\<bar>"
      and "r * sin (arctan (\<bar>dzdy\<bar> / \<bar>dzdx\<bar>)) = \<bar>dzdy\<bar>"
      by (simp_all add: r_def)
    then show ?thesis
      using nz by (auto simp: aspect_of_def atan2_def dneg_def Let_def)
  qed
qed

lemma atan2_range: "- pi \<le> atan2 y x \<and> atan2 y x \<le> pi"
proof -
  define t where "t = arctan (\<bar>snd y\<bar> / \<bar>snd x\<bar>)"
  define m where
    "m = (if \<bar>snd x\<bar> = 0 then (if \<bar>snd y\<bar> = 0 then (if fst x then pi else 0) else pi / 2)
          else if fst x then pi - t else t)"
  have t: "0 \<le> t" "t < pi / 2"
    using arctan_ubound [of "\<bar>snd y\<bar> / \<bar>snd x\<bar>"] by (simp_all add: t_def)
  have "0 \<le> m \<and> m \<le> pi"
    unfolding m_def using t pi_gt_zero by (simp; linarith)
  moreover have "atan2 y x = (if fst y then - m else m)"
    by (simp add: atan2_def m_def t_def Let_def)
  ultimately show ?thesis by (simp; linarith)
qed

lemma slope_range: "0 \<le> slope_of dzdx dzdy \<and> slope_of dzdx dzdy < pi / 2"
  using arctan_ubound [of "0.2 * sqrt (dzdx\<^sup>2 + dzdy\<^sup>2)"] by (simp add: slope_of_def)

lemma shade_unfold:
  "shade hgt dzdx dzdy =
     bytes ((blend (color1 (luminance1 (slope_of dzdx dzdy) (aspect_of dzdx dzdy)))
                   (color2 (luminance2 (slope_of dzdx dzdy) (aspect_of dzdx dzdy))))
            \<lparr>alpha := to_uint8 (alpha_of hgt)\<rparr>)"
  by (simp add: shade_def Let_def)

text \<open>
  C2. On a 516 by 516 tile, at every output coordinate \<open>(row, col)\<close> with
  \<open>row, col < 512\<close>: the five reads are inside the tile, \<open>dzdx\<close> is
  \<open>heightAt (row, col + 1) - heightAt (row, col - 1)\<close> and \<open>dzdy\<close> is
  \<open>heightAt (row + 1, col) - heightAt (row - 1, col)\<close>, where \<open>heightAt (r, c)\<close> decodes
  the pixel stored at \<open>(r + 2, c + 2)\<close>; the pixel written at \<open>(row, col)\<close> of the output
  is computed from the slope \<open>arctan (0.2 * sqrt (dzdx\<^sup>2 + dzdy\<^sup>2))\<close> and the aspect
  \<open>atan2 (- dzdy, - dzdx)\<close>, the angle in \<open>[- \<pi>, \<pi>]\<close> of the vector \<open>(- dzdx, - dzdy)\<close>.
\<close>

theorem gradient_slope_aspect:
  fixes img :: image_rgba8 and row col :: nat
  defines "dzdx \<equiv> spec_dzdx img (int row) (int col)"
    and "dzdy \<equiv> spec_dzdy img (int row) (int col)"
  assumes "tile516 img" "row < 512" "col < 512"
  shows "stencil img (int row) (int col) = Some (heightAt img (int row) (int col), dzdx, dzdy) \<and>
         (\<exists>out. process_hillshade img = Some out \<and>
            data out ! (row * 512 + col) = shade (heightAt img (int row) (int col)) dzdx dzdy) \<and>
         shade (heightAt img (int row) (int col)) dzdx dzdy =
           bytes ((blend (color1 (luminance1 (slope_of dzdx dzdy) (aspect_of dzdx dzdy)))
                         (color2 (luminance2 (slope_of dzdx dzdy) (aspect_of dzdx dzdy))))
                  \<lparr>alpha := to_uint8 (alpha_of (heightAt img (int row) (int col)))\<rparr>) \<and>
         slope_of dzdx dzdy = arctan (0.2 * sqrt (dzdx\<^sup>2 + dzdy\<^sup>2)) \<and>
         aspect_of dzdx dzdy = atan2 (dneg dzdy) (dneg dzdx) \<and>
         sqrt (dzdx\<^sup>2 + dzdy\<^sup>2) * cos (aspect_of dzdx dzdy) = - dzdx \<and>
         sqrt (dzdx\<^sup>2 + dzdy\<^sup>2) * sin (aspect_of dzdx dzdy) = - dzdy \<and>
         - pi \<le> aspect_of dzdx dzdy \<and> aspect_of dzdx dzdy \<le> pi"
proof -
  have "stencil img (int row) (int col) = Some (heightAt img (int row) (int col), dzdx, dzdy)"
    using assms by (simp add: stencil_tile)
  moreover have "\<exists>out. process_hillshade img = Some out \<and>
            data out ! (row * 512 + col) = shade (heightAt img (int row) (int col)) dzdx dzdy"
    using process_hillshade_pixel [of img row col] assms by (auto simp: spec_pixel_def)
  moreover have "- pi \<le> aspect_of dzdx dzdy \<and> aspect_of dzdx dzdy \<le> pi"
    unfolding aspect_of_def by (rule atan2_range)
  ultimately show ?thesis
    using aspect_polar [of dzdx dzdy] shade_unfold [of _ dzdx dzdy]
    by (simp add: slope_of_def aspect_of_def)
qed

section \<open>Flat terrain\<close>

lemma tile516_flat_tile: "tile516 (flat_tile p)"
  by (simp add: tile516_def flat_tile_def)

lemma heightAt_flat:
  assumes "tile516 img" "\<forall>p\<in>set (data img). height_val p = h"
    "- 2 \<le> r" "r \<le> 513" "- 2 \<le> c" "c \<le> 513"
  shows "heightAt img r c = h"
proof -
  have "0 \<le> (r + 2) * 516 + (c + 2)" "(r + 2) * 516 + (c + 2) < 516 * 516"
    using assms by auto
  then have "nat ((r + 2) * 516 + (c + 2)) < length (data img)"
    using assms by (simp add: tile516_def)
  then have "data img ! nat ((r + 2) * 516 + (c + 2)) \<in> set (data img)"
    by (rule nth_mem)
  then show ?thesis
    using assms by (simp add: heightAt_def)
qed

lemma stencil_flat:
  assumes "tile516 img" "\<forall>p\<in>set (data img). height_val p = h" "row < 512" "col < 512"
  shows "stencil img (int row) (int col) = Some (h, 0, 0)"
proof -
  have "heightAt img (int row) (int col) = h" "heightAt img (int row) (int col + 1) = h"
    "heightAt img (int row) (int col - 1) = h" "heightAt img (int row + 1) (int col) = h"
    "heightAt img (int row - 1) (int col) = h"
    using assms by (simp_all add: heightAt_flat)
  then show ?thesis
    using assms by (simp add: stencil_tile spec_dzdx_def spec_dzdy_def)
qed

lemma sqrt2_bounds: "1.414 \<le> sqrt (2::real) \<and> sqrt (2::real) \<le> 1.415"
proof -
  have "(1.414::real)\<^sup>2 \<le> 2" by (simp add: power2_eq_square)
  then have "1.414 \<le> sqrt (2::real)" by (rule real_le_rsqrt)
  moreover have "(2::real) \<le> 1.415\<^sup>2" by (simp add: power2_eq_square)
  then have "sqrt (2::real) \<le> 1.415" by (intro real_le_lsqrt) simp_all
  ultimately show ?thesis ..
qed

lemma flat_luminance_value:
  "223 < sqrt (cos (pi / 4) * 0.8 + 0.2) * (255::real) \<and>
   sqrt (cos (pi / 4) * 0.8 + 0.2) * (255::real) < 224"
proof -
  define v :: real where "v = cos (pi / 4) * 0.8 + 0.2"
  have v: "0.7656 \<le> v" "v \<le> 0.766"
    using sqrt2_bounds by (simp_all add: v_def cos_45)
  have "(223 / 255 :: real)\<^sup>2 < 0.7656" by (simp add: power2_eq_square)
  then have "(223 / 255 :: real)\<^sup>2 < v" using v by linarith
  then have lo: "223 / 255 < sqrt v" by (rule real_less_rsqrt)
  have "0.766 < (224 / 255 :: real)\<^sup>2" by (simp add: power2_eq_square)
  then have "v < (224 / 255 :: real)\<^sup>2" using v by linarith
  then have hi: "sqrt v < 224 / 255" by (intro real_less_lsqrt) simp_all
  show ?thesis using lo hi unfolding v_def by simp
qed

lemma flat_luminance1:
  "luminance1 (slope_of 0 0) (aspect_of 0 0) = sqrt (cos (pi / 4) * 0.8 + 0.2) * 255"
  by (simp add: luminance1_def slope_of_def M_PI_def Let_def cos_45 sin_45)

lemma flat_luminance2:
  "luminance2 (slope_of 0 0) (aspect_of 0 0) = sqrt (cos (pi / 4) * 0.8 + 0.2) * 255"
  by (simp add: luminance2_def slope_of_def M_PI_def Let_def cos_45 sin_45)

lemma shadow_value: "sqrt 0.2 * (255::real) < 128"
proof -
  have "sqrt 0.2 * (255::real) \<le> sqrt 0.25 * 255"
    by (intro mult_right_mono real_sqrt_le_mono) simp_all
  also have "sqrt (0.25 :: real) = 0.5"
    by (intro real_sqrt_unique) (simp_all add: power2_eq_square)
  finally show ?thesis by simp
qed

lemma flat_aspect: "aspect_of 0 0 = - pi"
  by (simp add: aspect_of_def atan2_def dneg_def)

lemma flat_slope: "slope_of 0 0 = 0"
  by (simp add: slope_of_def)

text \<open>
  C4, as the code has it. On a 516 by 516 tile whose pixels, margin included, all decode
  to the same height, at every output pixel \<open>dzdx = dzdy = 0\<close> and the slope is 0. The
  aspect is \<open>atan2 (-0.0, -0.0) = - \<pi>\<close>; it does not matter, being multiplied by
  \<open>sin 0\<close>. Both luminances after the gamma lift are \<open>sqrt (cos (\<pi> / 4) * 0.8 + 0.2) * 255\<close>,
  a value between 223 and 224: flat ground is lit at the cosine of the light's zenith
  angle, it is not in full shadow.
\<close>

theorem flat_terrain:
  assumes "tile516 img" "\<forall>p\<in>set (data img). height_val p = h" "row < 512" "col < 512"
  shows "stencil img (int row) (int col) = Some (h, 0, 0) \<and>
         slope_of 0 0 = 0 \<and> aspect_of 0 0 = - pi \<and>
         luminance1 (slope_of 0 0) (aspect_of 0 0) = sqrt (cos (pi / 4) * 0.8 + 0.2) * 255 \<and>
         luminance2 (slope_of 0 0) (aspect_of 0 0) = sqrt (cos (pi / 4) * 0.8 + 0.2) * 255 \<and>
         223 < luminance1 (slope_of 0 0) (aspect_of 0 0) \<and>
         luminance1 (slope_of 0 0) (aspect_of 0 0) < 224"
proof -
  have "223 < luminance1 (slope_of 0 0) (aspect_of 0 0) \<and>
        luminance1 (slope_of 0 0) (aspect_of 0 0) < 224"
    unfolding flat_luminance1 by (rule flat_luminance_value)
  with stencil_flat [OF assms] flat_slope flat_aspect flat_luminance1 flat_luminance2
  show ?thesis by blast
qed

lemma flat_tile_pixels: "set (data (flat_tile p)) = {p}"
  by (simp add: flat_tile_def)

lemma height_val_70: "height_val 0x4680 = 70"
  by (simp add: height_val_def)

text \<open>The flat tile of height 70 (every pixel \<open>R = 128, G = 70, B = 0\<close>), at the first output pixel.\<close>

theorem flat_terrain_witness:
  "tile516 (flat_tile 0x4680) \<and> set (data (flat_tile 0x4680)) = {0x4680} \<and>
   height_val 0x4680 = 70 \<and>
   stencil (flat_tile 0x4680) 0 0 = Some (70, 0, 0) \<and>
   223 < luminance1 (slope_of 0 0) (aspect_of 0 0) \<and>
   luminance1 (slope_of 0 0) (aspect_of 0 0) < 224"
proof -
  have flat: "\<forall>p\<in>set (data (flat_tile 0x4680)). height_val p = 70"
    by (simp add: flat_tile_pixels height_val_70)
  have lt: "(0::nat) < 512"
    by simp
  note t = flat_terrain [OF tile516_flat_tile flat lt lt]
  have "stencil (flat_tile 0x4680) (int 0) (int 0) = Some (70, 0, 0)"
    using t by blast
  then have "stencil (flat_tile 0x4680) 0 0 = Some (70, 0, 0)"
    by simp
  moreover have "223 < luminance1 (slope_of 0 0) (aspect_of 0 0)"
    "luminance1 (slope_of 0 0) (aspect_of 0 0) < 224"
    using t by blast+
  ultimately show ?thesis
    using tile516_flat_tile [of "0x4680"] flat_tile_pixels [of "0x4680"] height_val_70
    by blast
qed

text \<open>
  The claim as the specification states it fails on that tile: the aspect is not 0, and
  neither luminance is \<open>sqrt 0.2 * 255\<close>.
\<close>

theorem flat_terrain_counterexample:
  "tile516 (flat_tile 0x4680) \<and> set (data (flat_tile 0x4680)) = {0x4680} \<and>
   stencil (flat_tile 0x4680) 0 0 = Some (70, 0, 0) \<and>
   aspect_of 0 0 \<noteq> 0 \<and>
   luminance1 (slope_of 0 0) (aspect_of 0 0) \<noteq> sqrt 0.2 * 255 \<and>
   luminance2 (slope_of 0 0) (aspect_of 0 0) \<noteq> sqrt 0.2 * 255"
proof -
  have flat: "\<forall>p\<in>set (data (flat_tile 0x4680)). height_val p = 70"
    by (simp add: flat_tile_pixels height_val_70)
  have "stencil (flat_tile 0x4680) (int 0) (int 0) = Some (70, 0, 0)"
    using tile516_flat_tile flat by (rule stencil_flat) simp_all
  moreover have "luminance1 (slope_of 0 0) (aspect_of 0 0) \<noteq> sqrt 0.2 * 255"
    "luminance2 (slope_of 0 0) (aspect_of 0 0) \<noteq> sqrt 0.2 * 255"
    unfolding flat_luminance1 flat_luminance2
    using flat_luminance_value shadow_value by linarith+
  moreover have "aspect_of 0 0 \<noteq> 0"
    using pi_gt_zero by (simp add: flat_aspect)
  ultimately show ?thesis
    by (simp add: tile516_flat_tile flat_tile_pixels)
qed

section \<open>The pixel of flat ground at 70 m\<close>

lemma floor_flat:
  "\<lfloor>sqrt (cos (pi / 4) * 0.8 + 0.2) * (255::real)\<rfloor> = 223 \<and>
   \<lfloor>sqrt (cos (pi / 4) * 0.8 + 0.2) * (255::real) / 2\<rfloor> = 111"
  using flat_luminance_value by (simp add: floor_eq_iff)

lemma to_uint8_flat:
  "to_uint8 (sqrt (cos (pi / 4) * 0.8 + 0.2) * 255) = 223 \<and>
   to_uint8 (sqrt (cos (pi / 4) * 0.8 + 0.2) * 255 / 2) = 111"
proof -
  have nn: "0 \<le> sqrt (cos (pi / 4) * 0.8 + 0.2) * (255::real)"
    "0 \<le> sqrt (cos (pi / 4) * 0.8 + 0.2) * (255::real) / 2"
    using flat_luminance_value by linarith+
  have "to_uint8 (sqrt (cos (pi / 4) * 0.8 + 0.2) * 255) = word_of_int 223"
    using nn(1) floor_flat [THEN conjunct1] by (rule to_uint8_floor)
  moreover have "to_uint8 (sqrt (cos (pi / 4) * 0.8 + 0.2) * 255 / 2) = word_of_int 111"
    using nn(2) floor_flat [THEN conjunct2] by (rule to_uint8_floor)
  ultimately show ?thesis by simp
qed

lemma alpha_70: "alpha_of 70 = 127.5 \<and> to_uint8 (alpha_of 70) = 127"
  by (simp add: alpha_of_def to_uint8_def)

lemma shade_flat_70: "shade 70 0 0 = 0x7FDFDEDF"
  unfolding shade_def Let_def flat_luminance1 flat_luminance2 color1_def color2_def
    to_uint8_flat [THEN conjunct1] to_uint8_flat [THEN conjunct2] alpha_70 [THEN conjunct2]
  by (simp add: blend_def bytes_def)

lemma hillshade_pixel_flat_70: "hillshade_pixel (flat_tile 0x4680) 0 0 = Some 0x7FDFDEDF"
proof -
  have flat: "\<forall>p\<in>set (data (flat_tile 0x4680)). height_val p = 70"
    by (simp add: flat_tile_pixels height_val_70)
  have "stencil (flat_tile 0x4680) (int 0) (int 0) = Some (70, 0, 0)"
    using tile516_flat_tile flat by (rule stencil_flat) simp_all
  then show ?thesis
    by (simp add: hillshade_pixel_def shade_flat_70)
qed

section \<open>A step in the terrain\<close>

lemma tile516_step_tile: "tile516 step_tile"
  by (simp add: tile516_def step_tile_def)

lemma heightAt_step:
  assumes "- 2 \<le> r" "r \<le> 513" "- 2 \<le> c" "c \<le> 513"
  shows "heightAt step_tile r c = (if 1 \<le> c then 5 else 0)"
proof -
  have i: "0 \<le> (r + 2) * 516 + (c + 2)" "(r + 2) * 516 + (c + 2) < 516 * 516"
    using assms by auto
  then have lt: "nat ((r + 2) * 516 + (c + 2)) < 516 * 516"
    by linarith
  have "nat ((r + 2) * 516 + (c + 2)) = nat (r + 2) * 516 + nat (c + 2)"
    using assms by (simp add: nat_add_distrib nat_mult_distrib)
  moreover have "nat (c + 2) < 516"
    using assms by simp
  ultimately have m: "nat ((r + 2) * 516 + (c + 2)) mod 516 = nat (c + 2)"
    by simp
  have "data step_tile ! nat ((r + 2) * 516 + (c + 2)) = (if 3 \<le> nat (c + 2) then 0x0580 else 0x0080)"
    unfolding step_tile_def using lt m by (simp del: upt_Suc)
  then show ?thesis
    using assms by (auto simp: heightAt_def height_val_def)
qed

lemma step_slope: "slope_of 5 0 = pi / 4"
proof -
  have "sqrt ((5::real)\<^sup>2) = 5" by simp
  then show ?thesis by (simp add: slope_of_def arctan_one)
qed

lemma step_aspect: "aspect_of 5 0 = - pi"
  by (simp add: aspect_of_def atan2_def dneg_def)

lemma cos_135: "cos (3 * pi / 4) = - (sqrt 2 / 2)"
proof -
  have "cos (3 * pi / 4) = cos (pi - pi / 4)" by simp
  also have "\<dots> = - cos (pi / 4)" by (rule cos_pi_minus)
  finally show ?thesis by (simp add: cos_45)
qed

lemma half_sqrt2_cube: "sqrt 2 / 2 * (sqrt 2 / 2) * (sqrt 2 / 2) = sqrt 2 / (4::real)"
proof -
  have "sqrt 2 * sqrt 2 = (2::real)" by simp
  then have "sqrt 2 * sqrt 2 * sqrt 2 = 2 * sqrt (2::real)" by simp
  then show ?thesis by (simp add: field_simps)
qed

lemma half_sqrt2_square: "sqrt 2 / 2 * (sqrt 2 / 2) = 1 / (2::real)"
proof -
  have "sqrt 2 * sqrt 2 = (2::real)" by simp
  then show ?thesis by (simp add: field_simps)
qed

lemma gamma_lift: "0 \<le> l \<Longrightarrow> (if l < 0 then 0 else l) = (l::real)"
  by simp

lemma step_luminance1: "luminance1 (pi / 4) (- pi) = sqrt ((sqrt 2 / 4 + 1 / 2) * 0.8 + 0.2) * 255"
proof -
  have a: "M_PI * 0.5 - - pi - (315 - 90) * M_PI / 180 = pi / 4"
    and e: "M_PI * 0.5 - 45 * M_PI / 180 = pi / 4"
    by (simp_all add: M_PI_def)
  have pre: "cos (pi / 4) * sin (pi / 4) * sin (pi / 4) + cos (pi / 4) * cos (pi / 4)
               = sqrt 2 / 4 + 1 / 2"
    unfolding cos_45 sin_45 half_sqrt2_square by simp
  have nn: "0 \<le> sqrt 2 / 4 + 1 / (2::real)" by simp
  show ?thesis
    unfolding luminance1_def Let_def a e pre gamma_lift [OF nn] ..
qed

lemma step_luminance2: "luminance2 (pi / 4) (- pi) = sqrt ((1 / 2 - sqrt 2 / 4) * 0.8 + 0.2) * 255"
proof -
  have a: "M_PI * 0.5 - - pi - (225 - 90) * M_PI / 180 = 3 * pi / 4"
    and e: "M_PI * 0.5 - 45 * M_PI / 180 = pi / 4"
    by (simp_all add: M_PI_def)
  have "- (sqrt 2 / 2) * (sqrt 2 / 2) * (sqrt 2 / 2) = - (sqrt 2 / (4::real))"
    using half_sqrt2_cube by simp
  then have pre: "cos (3 * pi / 4) * sin (pi / 4) * sin (pi / 4) + cos (pi / 4) * cos (pi / 4)
               = 1 / 2 - sqrt 2 / 4"
    unfolding cos_135 cos_45 sin_45 half_sqrt2_square by simp
  have "sqrt 2 \<le> (2::real)"
    by (intro real_le_lsqrt) simp_all
  then have nn: "0 \<le> 1 / 2 - sqrt 2 / (4::real)" by simp
  show ?thesis
    unfolding luminance2_def Let_def a e pre gamma_lift [OF nn] ..
qed

lemma step_luminance_values:
  "239 < sqrt ((sqrt 2 / 4 + 1 / 2) * 0.8 + 0.2) * (255::real) \<and>
   sqrt ((sqrt 2 / 4 + 1 / 2) * 0.8 + 0.2) * (255::real) < 240 \<and>
   143 < sqrt ((1 / 2 - sqrt 2 / 4) * 0.8 + 0.2) * (255::real) \<and>
   sqrt ((1 / 2 - sqrt 2 / 4) * 0.8 + 0.2) * (255::real) < 144"
proof -
  define v :: real where "v = (sqrt 2 / 4 + 1 / 2) * 0.8 + 0.2"
  define w :: real where "w = (1 / 2 - sqrt 2 / 4) * 0.8 + 0.2"
  have v: "0.8828 \<le> v" "v \<le> 0.883" and w: "0.317 \<le> w" "w \<le> 0.3172"
    using sqrt2_bounds by (simp_all add: v_def w_def)
  have "(239 / 255 :: real)\<^sup>2 < 0.8828" by (simp add: power2_eq_square)
  then have "(239 / 255 :: real)\<^sup>2 < v" using v by linarith
  then have v1: "239 / 255 < sqrt v" by (rule real_less_rsqrt)
  have "0.883 < (240 / 255 :: real)\<^sup>2" by (simp add: power2_eq_square)
  then have "v < (240 / 255 :: real)\<^sup>2" using v by linarith
  then have v2: "sqrt v < 240 / 255" by (intro real_less_lsqrt) simp_all
  have "(143 / 255 :: real)\<^sup>2 < 0.317" by (simp add: power2_eq_square)
  then have "(143 / 255 :: real)\<^sup>2 < w" using w by linarith
  then have w1: "143 / 255 < sqrt w" by (rule real_less_rsqrt)
  have "0.3172 < (144 / 255 :: real)\<^sup>2" by (simp add: power2_eq_square)
  then have "w < (144 / 255 :: real)\<^sup>2" using w by linarith
  then have w2: "sqrt w < 144 / 255" by (intro real_less_lsqrt) simp_all
  show ?thesis
    using v1 v2 w1 w2 unfolding v_def w_def by simp
qed

lemma to_uint8_between:
  assumes "of_int k \<le> x" "x < of_int k + 1" "0 \<le> k"
  shows "to_uint8 x = word_of_int k"
proof -
  have "\<lfloor>x\<rfloor> = k" using assms by (simp add: floor_eq_iff)
  moreover have "0 \<le> x" using assms by linarith
  ultimately show ?thesis by (simp add: to_uint8_def)
qed

lemma shade_step: "shade 0 5 0 = 0x008FBEEF"
proof -
  define l1 :: real where "l1 = sqrt ((sqrt 2 / 4 + 1 / 2) * 0.8 + 0.2) * 255"
  define l2 :: real where "l2 = sqrt ((1 / 2 - sqrt 2 / 4) * 0.8 + 0.2) * 255"
  have b: "239 < l1" "l1 < 240" "143 < l2" "l2 < 144"
    using step_luminance_values by (simp_all add: l1_def l2_def)
  have "to_uint8 l1 = word_of_int 239" using b by (intro to_uint8_between) simp_all
  moreover have "to_uint8 (l1 / 2) = word_of_int 119" using b by (intro to_uint8_between) simp_all
  moreover have "to_uint8 l2 = word_of_int 143" using b by (intro to_uint8_between) simp_all
  moreover have "to_uint8 (l2 / 2) = word_of_int 71" using b by (intro to_uint8_between) simp_all
  ultimately have c: "color1 l1 = \<lparr>red = 239, green = 119, blue = 0, alpha = 255\<rparr>"
    "color2 l2 = \<lparr>red = 0, green = 71, blue = 143, alpha = 255\<rparr>"
    by (simp_all add: color1_def color2_def)
  have a: "to_uint8 (alpha_of 0) = 0"
    by (simp add: alpha_of_def to_uint8_def)
  have "shade 0 5 0 =
      bytes ((blend (color1 l1) (color2 l2))\<lparr>alpha := to_uint8 (alpha_of 0)\<rparr>)"
    unfolding shade_unfold step_slope step_aspect step_luminance1 step_luminance2 l1_def l2_def ..
  then show ?thesis
    unfolding c a by (simp add: blend_def bytes_def)
qed

lemma stencil_step: "stencil step_tile 0 0 = Some (0, 5, 0)"
proof -
  have "stencil step_tile 0 0 =
      Some (heightAt step_tile 0 0, spec_dzdx step_tile 0 0, spec_dzdy step_tile 0 0)"
    using tile516_step_tile by (intro stencil_tile) simp_all
  then show ?thesis
    by (simp add: spec_dzdx_def spec_dzdy_def heightAt_step)
qed

text \<open>
  The tile with a step through the whole pipeline. At the first output pixel the height
  is 0, \<open>dzdx = 5\<close> and \<open>dzdy = 0\<close>: the slope is \<open>\<pi> / 4\<close>, the aspect \<open>- \<pi>\<close>, the
  luminances 239.6 and 143.6, and the pixel \<open>R = 239, G = 190, B = 143, A = 0\<close>.
\<close>

theorem gradient_slope_aspect_witness:
  "tile516 step_tile \<and>
   stencil step_tile 0 0 = Some (0, 5, 0) \<and>
   slope_of 5 0 = pi / 4 \<and> aspect_of 5 0 = - pi \<and>
   (\<exists>out. process_hillshade step_tile = Some out \<and> data out ! 0 = 0x008FBEEF)"
proof -
  have lt: "(0::nat) < 512"
    by simp
  have h: "heightAt step_tile (int 0) (int 0) = 0"
    and dx: "spec_dzdx step_tile (int 0) (int 0) = 5"
    and dy: "spec_dzdy step_tile (int 0) (int 0) = 0"
    by (simp_all add: spec_dzdx_def spec_dzdy_def heightAt_step)
  note t = gradient_slope_aspect [OF tile516_step_tile lt lt, unfolded h dx dy shade_step]
  have "stencil step_tile (int 0) (int 0) = Some (0, 5, 0)"
    using t by blast
  then have "stencil step_tile 0 0 = Some (0, 5, 0)"
    by simp
  moreover have "\<exists>out. process_hillshade step_tile = Some out \<and>
      data out ! (0 * 512 + 0) = 0x008FBEEF"
    using t by blast
  then have "\<exists>out. process_hillshade step_tile = Some out \<and> data out ! 0 = 0x008FBEEF"
    by simp
  ultimately show ?thesis
    using tile516_step_tile step_slope step_aspect by blast
qed

section \<open>Alpha\<close>

lemma bytes_alpha: "drop_bit 24 (bytes c) = ucast (alpha c)"
  by (rule bit_word_eqI) (auto simp: bytes_def Let_def bit_simps dest: bit_imp_le_length)

lemma alpha_of_clamp: "alpha_of hgt = clamp ((hgt - 20) / 100 * 255) 0 255"
  by (simp add: alpha_of_def clamp_def Let_def max_def min_def)

lemma alpha_of_range: "0 \<le> alpha_of hgt \<and> alpha_of hgt \<le> 255"
  by (simp add: alpha_of_def Let_def)

text \<open>
  C6, as the code has it. The alpha byte of every output pixel is
  \<open>clamp ((height - 20) / 100 * 255, 0, 255)\<close> truncated to an integer: height 20 gives 0,
  height 120 gives 255, and height 70, where the value is 127.5, gives 127.
\<close>

theorem alpha_truncates:
  "drop_bit 24 (shade hgt dzdx dzdy) = ucast (to_uint8 (alpha_of hgt)) \<and>
   alpha_of hgt = clamp ((hgt - 20) / 100 * 255) 0 255 \<and>
   uint (to_uint8 (alpha_of hgt)) = \<lfloor>clamp ((hgt - 20) / 100 * 255) 0 255\<rfloor> \<and>
   to_uint8 (alpha_of 20) = 0 \<and> to_uint8 (alpha_of 120) = 255 \<and>
   alpha_of 70 = 127.5 \<and> to_uint8 (alpha_of 70) = 127"
proof -
  have "uint (to_uint8 (alpha_of hgt)) = \<lfloor>alpha_of hgt\<rfloor>"
    using alpha_of_range [of hgt] by (intro to_uint8_in_range) simp_all
  then have "uint (to_uint8 (alpha_of hgt)) = \<lfloor>clamp ((hgt - 20) / 100 * 255) 0 255\<rfloor>"
    by (simp add: alpha_of_clamp)
  moreover have "drop_bit 24 (shade hgt dzdx dzdy) = ucast (to_uint8 (alpha_of hgt))"
    by (simp add: shade_def Let_def bytes_alpha)
  moreover have "to_uint8 (alpha_of 20) = 0" "to_uint8 (alpha_of 120) = 255"
    by (simp_all add: alpha_of_def to_uint8_def)
  ultimately show ?thesis
    using alpha_70 alpha_of_clamp [of hgt] by blast
qed

text \<open>
  The pixel \<open>R = 128, G = 70\<close> decodes to height 70; on the flat tile of that pixel the
  alpha byte of the output is 127, not 128.
\<close>

theorem alpha_rounding_counterexample:
  "height_val 0x4680 = 70 \<and>
   map_option (drop_bit 24) (hillshade_pixel (flat_tile 0x4680) 0 0) = Some 127 \<and>
   map_option (drop_bit 24) (hillshade_pixel (flat_tile 0x4680) 0 0) \<noteq> Some 128"
  by (simp add: height_val_70 hillshade_pixel_flat_70 drop_bit_eq_div)

section \<open>The single-shot producer\<close>

lemma next_done: "fs_done self \<Longrightarrow> terrarium_featureset_next rd self = Some (None, self)"
  by (simp add: terrarium_featureset_next_def)

lemma try_block_throw: "try_block (Inl ex) self = Some (Inl ex)"
  by (simp add: try_block_def)

lemma try_block_decode:
  "try_block (Inr Other_image) self = Some (Inl (Std_exception ''in get<T>()''))"
  by (simp add: try_block_def get_rgba8_def)

lemma try_block_tile:
  assumes "tile516 img"
  shows "\<exists>out. process_hillshade img = Some out \<and>
           try_block (Inr (Rgba8 img)) self =
             Some (Inr \<lparr>raster_extent = fs_extent self, raster_query_extent = fs_extent self,
                        raster_data = out, raster_filter_factor = fs_filter_factor self\<rparr>)"
  using assms by (simp add: try_block_def get_rgba8_def process_hillshade_tile)

lemma next_throw:
  assumes "\<not> fs_done self"
  shows "terrarium_featureset_next (Inl ex) self =
           Some (Some \<lparr>feature_id = fs_feature_id self, feature_raster = None\<rparr>,
                 self\<lparr>fs_feature_id := fs_feature_id self + 1, fs_done := True\<rparr>)"
  using assms by (cases ex) (simp_all add: terrarium_featureset_next_def try_block_throw)

lemma next_decode:
  assumes "\<not> fs_done self"
  shows "terrarium_featureset_next (Inr Other_image) self =
           Some (Some \<lparr>feature_id = fs_feature_id self, feature_raster = None\<rparr>,
                 self\<lparr>fs_feature_id := fs_feature_id self + 1, fs_done := True\<rparr>)"
  using assms by (simp add: terrarium_featureset_next_def try_block_decode)

lemma next_tile:
  assumes "\<not> fs_done self" "tile516 img"
  shows "\<exists>out. process_hillshade img = Some out \<and>
           terrarium_featureset_next (Inr (Rgba8 img)) self =
           Some (Some \<lparr>feature_id = fs_feature_id self,
                       feature_raster = Some \<lparr>raster_extent = fs_extent self,
                          raster_query_extent = fs_extent self, raster_data = out,
                          raster_filter_factor = fs_filter_factor self\<rparr>\<rparr>,
                 self\<lparr>fs_feature_id := fs_feature_id self + 1, fs_done := True\<rparr>)"
proof -
  obtain out where "process_hillshade img = Some out"
    and "try_block (Inr (Rgba8 img)) (self\<lparr>fs_feature_id := fs_feature_id self + 1\<rparr>) =
      Some (Inr \<lparr>raster_extent = fs_extent self, raster_query_extent = fs_extent self,
                 raster_data = out, raster_filter_factor = fs_filter_factor self\<rparr>)"
    using try_block_tile [OF assms(2), of "self\<lparr>fs_feature_id := fs_feature_id self + 1\<rparr>"]
    by auto
  then show ?thesis
    using assms(1) by (simp add: terrarium_featureset_next_def)
qed

lemma next_first:
  assumes "\<not> fs_done self" "reader_ok rd"
  shows "\<exists>f. terrarium_featureset_next rd self =
           Some (Some f, self\<lparr>fs_feature_id := fs_feature_id self + 1, fs_done := True\<rparr>) \<and>
           feature_id f = fs_feature_id self"
proof (cases rd)
  case (Inl ex)
  then show ?thesis using next_throw [OF assms(1)] by simp
next
  case (Inr input)
  show ?thesis
  proof (cases input)
    case (Rgba8 img)
    then have "tile516 img" using assms(2) Inr by (simp add: reader_ok_def)
    then show ?thesis
      using next_tile [OF assms(1), of img] Inr Rgba8 by auto
  next
    case Other_image
    then show ?thesis using next_decode [OF assms(1)] Inr by simp
  qed
qed

text \<open>
  C7. Whatever the tile source does on the first call (it fails, it delivers an image of
  another format, or it delivers a tile), the call returns with the producer done, and
  from then on every call returns the empty pointer and leaves the producer as it is.
\<close>

theorem single_shot:
  assumes "reader_ok rd"
  shows "\<exists>f self'. terrarium_featureset_next rd self = Some (f, self') \<and> fs_done self' \<and>
           (\<forall>rd'. terrarium_featureset_next rd' self' = Some (None, self'))"
proof (cases "fs_done self")
  case True
  then show ?thesis by (simp add: next_done)
next
  case False
  then obtain f where
    "terrarium_featureset_next rd self =
       Some (Some f, self\<lparr>fs_feature_id := fs_feature_id self + 1, fs_done := True\<rparr>)"
    using next_first [OF _ assms] by blast
  then show ?thesis by (simp add: next_done)
qed

text \<open>A first call that succeeds, on the flat tile.\<close>

theorem single_shot_witness:
  "reader_ok (Inr (Rgba8 (flat_tile 0x4680))) \<and>
   (\<exists>f self'. terrarium_featureset_next (Inr (Rgba8 (flat_tile 0x4680)))
        (terrarium_featureset_init unit_box unit_box 1) = Some (f, self') \<and> fs_done self' \<and>
        (\<forall>rd'. terrarium_featureset_next rd' self' = Some (None, self')))"
proof -
  have ok: "reader_ok (Inr (Rgba8 (flat_tile 0x4680)))"
    by (simp add: reader_ok_def tile516_flat_tile)
  from single_shot [OF ok] ok show ?thesis by blast
qed

text \<open>
  C8. When the read throws (any of the three kinds of exception) or the image is not
  rgba8, the first call returns normally: a feature with no raster, and the producer
  done.
\<close>

theorem failure_is_caught:
  assumes "\<not> fs_done self"
  shows "terrarium_featureset_next (Inl ex) self =
           Some (Some \<lparr>feature_id = fs_feature_id self, feature_raster = None\<rparr>,
                 self\<lparr>fs_feature_id := fs_feature_id self + 1, fs_done := True\<rparr>) \<and>
         terrarium_featureset_next (Inr Other_image) self =
           Some (Some \<lparr>feature_id = fs_feature_id self, feature_raster = None\<rparr>,
                 self\<lparr>fs_feature_id := fs_feature_id self + 1, fs_done := True\<rparr>)"
  using next_throw [OF assms] next_decode [OF assms] by simp

text \<open>A freshly constructed producer whose read fails.\<close>

theorem failure_is_caught_witness:
  "\<not> fs_done (terrarium_featureset_init unit_box unit_box 1) \<and>
   terrarium_featureset_next (Inl (Image_reader_exception ''read failed''))
       (terrarium_featureset_init unit_box unit_box 1) =
     Some (Some \<lparr>feature_id = 1, feature_raster = None\<rparr>,
           \<lparr>fs_feature_id = 2, fs_extent = unit_box, fs_bbox = unit_box,
            fs_filter_factor = 1, fs_done = True\<rparr>) \<and>
   terrarium_featureset_next (Inr Other_image) (terrarium_featureset_init unit_box unit_box 1) =
     Some (Some \<lparr>feature_id = 1, feature_raster = None\<rparr>,
           \<lparr>fs_feature_id = 2, fs_extent = unit_box, fs_bbox = unit_box,
            fs_filter_factor = 1, fs_done = True\<rparr>)"
proof -
  have nd: "\<not> fs_done (terrarium_featureset_init unit_box unit_box 1)"
    by (simp add: terrarium_featureset_init_def)
  from failure_is_caught [OF nd, of "Image_reader_exception ''read failed''"] nd
  show ?thesis by (simp add: terrarium_featureset_init_def)
qed

text \<open>
  C10. The first call on a freshly constructed producer returns a feature with id 1:
  with a raster when the source delivers a tile, with none when the read throws or the
  image is not rgba8.
\<close>

theorem first_call_feature:
  assumes "tile516 img"
  shows "(\<exists>r self'. terrarium_featureset_next (Inr (Rgba8 img))
              (terrarium_featureset_init extent bbox ff) =
            Some (Some \<lparr>feature_id = 1, feature_raster = Some r\<rparr>, self')) \<and>
         (\<exists>self'. terrarium_featureset_next (Inl ex) (terrarium_featureset_init extent bbox ff) =
            Some (Some \<lparr>feature_id = 1, feature_raster = None\<rparr>, self')) \<and>
         (\<exists>self'. terrarium_featureset_next (Inr Other_image)
              (terrarium_featureset_init extent bbox ff) =
            Some (Some \<lparr>feature_id = 1, feature_raster = None\<rparr>, self'))"
proof -
  have nd: "\<not> fs_done (terrarium_featureset_init extent bbox ff)"
    and i: "fs_feature_id (terrarium_featureset_init extent bbox ff) = 1"
    by (simp_all add: terrarium_featureset_init_def)
  show ?thesis
    using next_tile [OF nd assms] next_throw [OF nd, of ex] next_decode [OF nd]
    unfolding i by auto
qed

text \<open>The flat tile, and a read that throws something unknown.\<close>

theorem first_call_feature_witness:
  "tile516 (flat_tile 0x4680) \<and>
   (\<exists>r self'. terrarium_featureset_next (Inr (Rgba8 (flat_tile 0x4680)))
              (terrarium_featureset_init unit_box unit_box 1) =
            Some (Some \<lparr>feature_id = 1, feature_raster = Some r\<rparr>, self')) \<and>
   (\<exists>self'. terrarium_featureset_next (Inl Unknown_exception)
              (terrarium_featureset_init unit_box unit_box 1) =
            Some (Some \<lparr>feature_id = 1, feature_raster = None\<rparr>, self'))"
  using first_call_feature [OF tile516_flat_tile, of "0x4680" unit_box unit_box 1 Unknown_exception]
    tile516_flat_tile [of "0x4680"] by blast

end
